theory Spec2Isabelle
  imports Main "HOL-Library.Word" "HOL-Library.Multiset" "HOL-Library.AList"
begin

section \<open>Data model of eth/masternode_manager.go\<close>

text \<open>
  The file under verification is \<^verbatim>\<open>eth/masternode_manager.go\<close>. Its functions read
  and write a \<^verbatim>\<open>MasternodeManager\<close>; the types of package \<^verbatim>\<open>masternode\<close>,
  \<^verbatim>\<open>discover\<close>, \<^verbatim>\<open>net\<close> and \<^verbatim>\<open>math/big\<close> that it uses are declared elsewhere and are
  modelled here only as far as this file touches them.
\<close>

type_synonym Hash = "8 word list" \<comment> \<open>\<^verbatim>\<open>common.Hash\<close>, a byte array\<close>
type_synonym IPaddr = "8 word list" \<comment> \<open>\<^verbatim>\<open>net.IP\<close>, a byte slice\<close>

text \<open>A Go run-time panic, the only way the functions below fail to return.\<close>

datatype panic =
    NilMapAssignment \<comment> \<open>assignment to entry in nil map\<close>
  | NilDereference \<comment> \<open>invalid memory address or nil pointer dereference\<close>

text \<open>\<^verbatim>\<open>discover.Node\<close>: the fields \<^verbatim>\<open>n.Node.IP\<close> and \<^verbatim>\<open>n.Node.TCP\<close> (a \<^verbatim>\<open>uint16\<close>).\<close>

record discover_Node =
  IP :: IPaddr
  TCP :: "16 word"

text \<open>
  Modelled from the spec: the declaration of \<^verbatim>\<open>masternode.Masternode\<close> is not in this
  file. The fields \<^verbatim>\<open>ID\<close>, \<^verbatim>\<open>Node\<close> and \<^verbatim>\<open>Height\<close> are the ones the file reads
  (\<^verbatim>\<open>masternode.ID\<close>, \<^verbatim>\<open>n.Node.TCP\<close>, \<^verbatim>\<open>node.Height.Int64()\<close>); \<^verbatim>\<open>ProtocolVersion\<close> is
  the field of the spec's MasternodeRecord. \<^verbatim>\<open>Height\<close> is a \<^verbatim>\<open>*big.Int\<close> read through
  \<^verbatim>\<open>int(node.Height.Int64())\<close>; it is kept as the integer that conversion yields.
\<close>

record Masternode =
  ID :: string
  Node :: discover_Node
  Height :: int
  ProtocolVersion :: int

text \<open>\<^verbatim>\<open>net.TCPAddr\<close>: \<^verbatim>\<open>mn.active.Addr.IP\<close> and \<^verbatim>\<open>mn.active.Addr.Port\<close> (an \<^verbatim>\<open>int\<close>).\<close>

record TCPAddr =
  IP :: IPaddr
  Port :: int

text \<open>
  Modelled from the spec: the constants \<^verbatim>\<open>masternode.ACTIVE_MASTERNODE_NOT_CAPABLE\<close> and
  \<^verbatim>\<open>masternode.ACTIVE_MASTERNODE_STARTED\<close> are declared outside this file; the spec's
  ActiveNodeState is the enumeration {NotCapable, Started}.
\<close>

datatype ActiveState = ACTIVE_MASTERNODE_NOT_CAPABLE | ACTIVE_MASTERNODE_STARTED

text \<open>\<^verbatim>\<open>masternode.ActiveMasternode\<close>: \<^verbatim>\<open>active.ID\<close>, \<^verbatim>\<open>active.Addr\<close>, and the state
  written by \<^verbatim>\<open>SetState\<close> and read by \<^verbatim>\<open>State()\<close>.\<close>

record ActiveMasternode =
  ID :: string
  Addr :: TCPAddr
  State :: ActiveState

text \<open>
  Modelled from the spec: \<^verbatim>\<open>masternode.MasternodeSet\<close> is not in this file. A set is the
  sequence of records its \<^verbatim>\<open>Nodes()\<close> returns (the spec's \<^verbatim>\<open>All()\<close>), \<^verbatim>\<open>Len()\<close> is
  its size (the spec's \<^verbatim>\<open>Size()\<close>) and \<^verbatim>\<open>Node(id)\<close> is the spec's \<^verbatim>\<open>Lookup\<close>. The
  manager holds a pointer, \<^verbatim>\<open>*masternode.MasternodeSet\<close>, which \<^verbatim>\<open>Start\<close> leaves nil
  when \<^verbatim>\<open>NewMasternodeSet\<close> fails: \<open>None\<close> is the nil pointer, and a method called on
  it reads the fields of a nil receiver.
\<close>

type_synonym MasternodeSet = "Masternode list"

definition MasternodeSet_Len :: "MasternodeSet option \<Rightarrow> panic + int" where
  "MasternodeSet_Len ns = (case ns of None \<Rightarrow> Inl NilDereference | Some nodes \<Rightarrow> Inr (int (length nodes)))"

definition MasternodeSet_Nodes :: "MasternodeSet option \<Rightarrow> panic + Masternode list" where
  "MasternodeSet_Nodes ns = (case ns of None \<Rightarrow> Inl NilDereference | Some nodes \<Rightarrow> Inr nodes)"

definition MasternodeSet_Node :: "MasternodeSet option \<Rightarrow> string \<Rightarrow> panic + Masternode option" where
  "MasternodeSet_Node ns ident =
     (case ns of None \<Rightarrow> Inl NilDereference
      | Some nodes \<Rightarrow> Inr (find (\<lambda>m. Masternode.ID m = ident) nodes))"

text \<open>
  The fields of \<^verbatim>\<open>MasternodeManager\<close> that the functions below use: the registry
  \<^verbatim>\<open>masternodes\<close>, the local node \<^verbatim>\<open>active\<close>, and the head of the chain as
  \<^verbatim>\<open>mm.blockchain.CurrentBlock()\<close> returns it (its hash, or \<open>None\<close> for a nil block).
\<close>

record MasternodeManager =
  masternodes :: "MasternodeSet option"
  active :: ActiveMasternode
  CurrentBlock :: "Hash option"

section \<open>updateActiveMasternode\<close>

text \<open>
  \<^verbatim>\<open>net.IP.Equal\<close> of the Go library: equal byte slices, or an IPv4 address and its
  IPv4-in-IPv6 form.
\<close>

definition v4InV6Prefix :: "8 word list" where
  "v4InV6Prefix = [0, 0, 0, 0, 0, 0, 0, 0, 0, 0, 0xff, 0xff]"

definition IP_Equal :: "IPaddr \<Rightarrow> IPaddr \<Rightarrow> bool" where
  "IP_Equal ip x =
     (if length ip = length x then ip = x
      else if length ip = 4 \<and> length x = 16 then take 12 x = v4InV6Prefix \<and> ip = drop 12 x
      else if length ip = 16 \<and> length x = 4 then take 12 ip = v4InV6Prefix \<and> drop 12 ip = x
      else False)"

definition updateActiveMasternode :: "MasternodeManager \<Rightarrow> panic + MasternodeManager" where
  "updateActiveMasternode mn =
     (case MasternodeSet_Node (masternodes mn) (ActiveMasternode.ID (active mn)) of
        Inl p \<Rightarrow> Inl p
      | Inr n \<Rightarrow>
          (let state =
             (case n of
                None \<Rightarrow> ACTIVE_MASTERNODE_NOT_CAPABLE
              | Some n \<Rightarrow>
                  if uint (TCP (Node n)) \<noteq> Port (Addr (active mn)) then ACTIVE_MASTERNODE_NOT_CAPABLE
                  else if \<not> IP_Equal (discover_Node.IP (Node n)) (TCPAddr.IP (Addr (active mn)))
                    then ACTIVE_MASTERNODE_NOT_CAPABLE
                  else ACTIVE_MASTERNODE_STARTED)
           in Inr (mn\<lparr>active := (active mn)\<lparr>State := state\<rparr>\<rparr>)))"

section \<open>Score objects\<close>

text \<open>
  A score is a \<^verbatim>\<open>*big.Int\<close>: a pointer to an integer object. \<^verbatim>\<open>GetMasternodeScores\<close> uses
  the pointer itself as a map key, so the objects live in an explicit store: the heap is
  the list of the integers allocated so far and an address is an index into it.
\<close>

type_synonym addr = nat
type_synonym heap = "int list"

text \<open>
  \<^verbatim>\<open>Masternode.CalculateScore\<close> is declared outside this file and is a parameter of
  every function that calls it: from a record, a block hash and the heap it yields the
  address of the score and the heap after the call.
\<close>

type_synonym CalculateScore = "Masternode \<Rightarrow> Hash \<Rightarrow> heap \<Rightarrow> addr \<times> heap"

text \<open>\<^verbatim>\<open>big.NewInt(x)\<close>: a new object holding \<open>x\<close>, at the next free address.\<close>

definition big_NewInt :: "int \<Rightarrow> heap \<Rightarrow> addr \<times> heap" where
  "big_NewInt x h = (length h, h @ [x])"

text \<open>
  A \<^verbatim>\<open>CalculateScore\<close> allocates when the address it returns was not in use before the
  call and is in use after it, and no object is freed.
\<close>

definition allocates :: "CalculateScore \<Rightarrow> bool" where
  "allocates CS \<longleftrightarrow>
     (\<forall>m b h. length h \<le> fst (CS m b h) \<and> fst (CS m b h) < length (snd (CS m b h)))"

text \<open>
  \<^verbatim>\<open>x.Cmp(y)\<close> of \<^verbatim>\<open>math/big\<close> for a non-nil receiver \<open>x\<close>: \<open>-1\<close>, \<open>0\<close> or \<open>1\<close>; it
  reads \<^verbatim>\<open>y.neg\<close>, which faults when \<open>y\<close> is nil. An address outside the heap cannot
  arise in Go and faults here.
\<close>

definition Cmp :: "heap \<Rightarrow> addr \<Rightarrow> addr option \<Rightarrow> panic + int" where
  "Cmp h x y =
     (case y of
        None \<Rightarrow> Inl NilDereference
      | Some y \<Rightarrow>
          if x < length h \<and> y < length h
          then Inr (if h ! x < h ! y then - 1 else if h ! x > h ! y then 1 else 0)
          else Inl NilDereference)"

section \<open>GetMasternodeScores, GetMasternodeRank, ProcessTxLockVotes\<close>

text \<open>
  The Go map \<^verbatim>\<open>map[*big.Int]*masternode.Masternode\<close> is an association list with one
  entry per key; \<^verbatim>\<open>masternodeScores[k] = m\<close> is \<open>AList.update k m\<close>. The parameter
  \<^verbatim>\<open>minProtocol\<close> is received and never read.
\<close>

type_synonym ScoreMap = "(addr \<times> Masternode) list"

fun GetMasternodeScores_range ::
  "CalculateScore \<Rightarrow> Masternode list \<Rightarrow> Hash \<Rightarrow> ScoreMap \<Rightarrow> heap \<Rightarrow> ScoreMap \<times> heap" where
  "GetMasternodeScores_range CS [] blockHash masternodeScores h = (masternodeScores, h)"
| "GetMasternodeScores_range CS (m # ms) blockHash masternodeScores h =
     (case CS m blockHash h of
        (score, h') \<Rightarrow> GetMasternodeScores_range CS ms blockHash (AList.update score m masternodeScores) h')"

definition GetMasternodeScores ::
  "CalculateScore \<Rightarrow> MasternodeManager \<Rightarrow> Hash \<Rightarrow> int \<Rightarrow> heap \<Rightarrow> panic + ScoreMap \<times> heap" where
  "GetMasternodeScores CS mm blockHash minProtocol h =
     (case MasternodeSet_Nodes (masternodes mm) of
        Inl p \<Rightarrow> Inl p
      | Inr nodes \<Rightarrow> Inr (GetMasternodeScores_range CS nodes blockHash [] h))"

text \<open>
  \<^verbatim>\<open>for _, masternode := range masternodeScores\<close> visits the entries of a Go map in an
  order the language leaves unspecified and the runtime randomises. The order is a
  parameter: a function from the map to the sequence of entries the loop sees, which is
  a map iteration when that sequence is a rearrangement of the entries.
\<close>

type_synonym MapIteration = "ScoreMap \<Rightarrow> ScoreMap"

definition map_iteration :: "MapIteration \<Rightarrow> bool" where
  "map_iteration iter \<longleftrightarrow> (\<forall>m. mset (iter m) = mset m)"

text \<open>The loop of \<^verbatim>\<open>GetMasternodeRank\<close>; the result is \<^verbatim>\<open>rank\<close> when the loop ends.\<close>

fun GetMasternodeRank_range :: "ScoreMap \<Rightarrow> string \<Rightarrow> int \<Rightarrow> int \<Rightarrow> int" where
  "GetMasternodeRank_range [] ident tRank rank = rank"
| "GetMasternodeRank_range ((score, masternode) # rest) ident tRank rank =
     (if ident = Masternode.ID masternode then tRank + 1
      else GetMasternodeRank_range rest ident (tRank + 1) rank)"

text \<open>
  \<^verbatim>\<open>mm.syncer()\<close> is not in this file and is taken to return without touching the
  registry. On a nil block the arguments of the log call are evaluated first, and
  \<^verbatim>\<open>block.Number()\<close> reads the header of the nil block.
\<close>

definition GetMasternodeRank ::
  "CalculateScore \<Rightarrow> MapIteration \<Rightarrow> MasternodeManager \<Rightarrow> string \<Rightarrow> heap \<Rightarrow> panic + int \<times> bool" where
  "GetMasternodeRank CS iter mm ident h =
     (let rank = 0 in
      case CurrentBlock mm of
        None \<Rightarrow> Inl NilDereference
      | Some block \<Rightarrow>
          (case GetMasternodeScores CS mm block 1 h of
             Inl p \<Rightarrow> Inl p
           | Inr (masternodeScores, h') \<Rightarrow>
               Inr (GetMasternodeRank_range (iter masternodeScores) ident 0 rank, True)))"

definition SIGNATURES_TOTAL :: int where
  "SIGNATURES_TOTAL = 10"

text \<open>
  \<^verbatim>\<open>mm.is.ProcessTxLockVotes\<close> belongs to \<^verbatim>\<open>InstantSend\<close> and is a parameter: the
  function the votes are handed to once the gate has let them through.
\<close>

definition ProcessTxLockVotes ::
  "CalculateScore \<Rightarrow> MapIteration \<Rightarrow> ('votes \<Rightarrow> bool) \<Rightarrow> MasternodeManager \<Rightarrow> 'votes \<Rightarrow> heap
     \<Rightarrow> panic + bool" where
  "ProcessTxLockVotes CS iter is_ProcessTxLockVotes mm votes h =
     (case GetMasternodeRank CS iter mm (ActiveMasternode.ID (active mm)) h of
        Inl p \<Rightarrow> Inl p
      | Inr (rank, ok) \<Rightarrow>
          if \<not> ok then Inr False
          else if rank > SIGNATURES_TOTAL then Inr False
          else Inr (is_ProcessTxLockVotes votes))"

section \<open>GetNextMasternodeInQueueForPayment\<close>

text \<open>
  \<^verbatim>\<open>sortMap\<close> is declared with \<^verbatim>\<open>var\<close> and never made, \<^verbatim>\<open>highest\<close> and
  \<^verbatim>\<open>winner\<close> are nil pointers: each is an option, \<open>None\<close> for nil. Reading a nil map
  yields the zero value, writing to it panics.
\<close>

type_synonym SortMap = "(int \<rightharpoonup> Masternode) option"

definition SortMap_index :: "SortMap \<Rightarrow> int \<Rightarrow> Masternode option" where
  "SortMap_index sortMap i = (case sortMap of None \<Rightarrow> None | Some sm \<Rightarrow> sm i)"

text \<open>The first loop: \<^verbatim>\<open>for _, node := range mm.masternodes.Nodes()\<close>.\<close>

fun GetNextMasternodeInQueueForPayment_nodes ::
  "Masternode list \<Rightarrow> int list \<Rightarrow> SortMap \<Rightarrow> panic + int list \<times> SortMap" where
  "GetNextMasternodeInQueueForPayment_nodes [] paids sortMap = Inr (paids, sortMap)"
| "GetNextMasternodeInQueueForPayment_nodes (node # rest) paids sortMap =
     (let i = Height node; paids = paids @ [i] in
      case sortMap of
        None \<Rightarrow> Inl NilMapAssignment
      | Some sm \<Rightarrow> GetNextMasternodeInQueueForPayment_nodes rest paids (Some (sm(i \<mapsto> node))))"

text \<open>
  The second loop: \<^verbatim>\<open>for _, i := range paids\<close>. \<^verbatim>\<open>CalculateScore\<close> is called once for
  the \<^verbatim>\<open>Printf\<close> and once for \<^verbatim>\<open>score\<close>; on a nil \<^verbatim>\<open>sortMap[i]\<close> the call has a nil
  receiver.
\<close>

fun GetNextMasternodeInQueueForPayment_paids ::
  "CalculateScore \<Rightarrow> int list \<Rightarrow> Hash \<Rightarrow> SortMap \<Rightarrow> int \<Rightarrow> int \<Rightarrow> addr option \<Rightarrow> Masternode option
     \<Rightarrow> heap \<Rightarrow> panic + Masternode option" where
  "GetNextMasternodeInQueueForPayment_paids CS [] block sortMap tenthNetWork countTenth highest winner h =
     Inr winner"
| "GetNextMasternodeInQueueForPayment_paids CS (i # rest) block sortMap tenthNetWork countTenth highest winner h =
     (case SortMap_index sortMap i of
        None \<Rightarrow> Inl NilDereference
      | Some node \<Rightarrow>
          (case CS node block h of
             (printed, h1) \<Rightarrow>
               (case CS node block h1 of
                  (score, h2) \<Rightarrow>
                    (case Cmp h2 score highest of
                       Inl p \<Rightarrow> Inl p
                     | Inr c \<Rightarrow>
                         (let highest = (if c > 0 then Some score else highest);
                              winner = (if c > 0 then Some node else winner);
                              countTenth = countTenth + 1
                          in if countTenth \<ge> tenthNetWork then Inr winner
                             else GetNextMasternodeInQueueForPayment_paids CS rest block sortMap
                                    tenthNetWork countTenth highest winner h2)))))"

text \<open>
  The result is the pair the Go function returns, the winner and the error, each
  possibly nil. The \<^verbatim>\<open>var\<close> block calls \<^verbatim>\<open>mm.masternodes.Len()\<close> before the nil test.
\<close>

definition GetNextMasternodeInQueueForPayment ::
  "CalculateScore \<Rightarrow> MasternodeManager \<Rightarrow> Hash \<Rightarrow> heap \<Rightarrow> panic + Masternode option \<times> string option" where
  "GetNextMasternodeInQueueForPayment CS mm block h =
     (case MasternodeSet_Len (masternodes mm) of
        Inl p \<Rightarrow> Inl p
      | Inr len \<Rightarrow>
          (let paids = []; tenthNetWork = len div 10; countTenth = 0;
               highest = None; winner = None; sortMap = None
           in if masternodes mm = None then Inr (None, Some ''no masternode detected'')
              else
                (case MasternodeSet_Nodes (masternodes mm) of
                   Inl p \<Rightarrow> Inl p
                 | Inr nodes \<Rightarrow>
                     (case GetNextMasternodeInQueueForPayment_nodes nodes paids sortMap of
                        Inl p \<Rightarrow> Inl p
                      | Inr (paids, sortMap) \<Rightarrow>
                          (case GetNextMasternodeInQueueForPayment_paids CS (sort paids) block sortMap
                                  tenthNetWork countTenth highest winner h of
                             Inl p \<Rightarrow> Inl p
                           | Inr winner \<Rightarrow> Inr (winner, None))))))"

section \<open>masternodeLoop\<close>

text \<open>
  What one \<^verbatim>\<open>select\<close> of the loop receives: a join or a quit with its \<^verbatim>\<open>Id\<close> (\<open>eid\<close> below), or an
  error from the \<^verbatim>\<open>Err()\<close> channel of one of the two subscriptions (\<open>None\<close> is the nil
  error a closed channel delivers).
\<close>

datatype Event =
    JoinEvent "8 word list"
  | QuitEvent "8 word list"
  | JoinSubErr "string option"
  | QuitSubErr "string option"

text \<open>
  The state the loop works on: the manager, whether \<^verbatim>\<open>joinSub\<close> and \<^verbatim>\<open>quitSub\<close> are
  still subscribed, and the nodes handed to \<^verbatim>\<open>mn.srvr.AddPeer\<close>.
\<close>

record LoopState =
  manager :: MasternodeManager
  joinSub :: bool
  quitSub :: bool
  peers :: "discover_Node list"

text \<open>
  \<^verbatim>\<open>mn.masternodes.NodeJoin\<close> and \<^verbatim>\<open>mn.masternodes.NodeQuit\<close> are declared outside this
  file and are parameters. \<^verbatim>\<open>NodeJoin\<close> yields the joined record, or \<open>None\<close> when it
  returns an error, and the registry after the call; \<^verbatim>\<open>NodeQuit\<close> yields the registry
  after the call.
\<close>

type_synonym NodeJoin = "8 word list \<Rightarrow> MasternodeSet option \<Rightarrow> panic + Masternode option \<times> MasternodeSet option"
type_synonym NodeQuit = "8 word list \<Rightarrow> MasternodeSet option \<Rightarrow> panic + MasternodeSet option"

text \<open>
  One case of the \<^verbatim>\<open>select\<close>. \<open>self\<close> is \<^verbatim>\<open>mn.srvr.Self().ID\<close>. The result is
  the state with which the \<^verbatim>\<open>for\<close> goes round again: no case leaves the loop.
\<close>

fun masternodeLoop_select :: "NodeJoin \<Rightarrow> NodeQuit \<Rightarrow> 8 word list \<Rightarrow> Event \<Rightarrow> LoopState \<Rightarrow> panic + LoopState" where
  "masternodeLoop_select NJ NQ self (JoinEvent eid) st =
     (case NJ eid (masternodes (manager st)) of
        Inl p \<Rightarrow> Inl p
      | Inr (None, ns) \<Rightarrow> Inr (st\<lparr>manager := (manager st)\<lparr>masternodes := ns\<rparr>\<rparr>)
      | Inr (Some node, ns) \<Rightarrow>
          (let mn = (manager st)\<lparr>masternodes := ns\<rparr> in
           if eid = take 32 self
           then (case updateActiveMasternode mn of
                   Inl p \<Rightarrow> Inl p
                 | Inr mn' \<Rightarrow> Inr (st\<lparr>manager := mn'\<rparr>))
           else Inr (st\<lparr>manager := mn, peers := peers st @ [Node node]\<rparr>)))"
| "masternodeLoop_select NJ NQ self (QuitEvent eid) st =
     (case NQ eid (masternodes (manager st)) of
        Inl p \<Rightarrow> Inl p
      | Inr ns \<Rightarrow>
          (let mn = (manager st)\<lparr>masternodes := ns\<rparr> in
           if eid = take 32 self
           then (case updateActiveMasternode mn of
                   Inl p \<Rightarrow> Inl p
                 | Inr mn' \<Rightarrow> Inr (st\<lparr>manager := mn'\<rparr>))
           else Inr (st\<lparr>manager := mn\<rparr>)))"
| "masternodeLoop_select NJ NQ self (JoinSubErr err) st =
     (case err of
        None \<Rightarrow> Inl NilDereference
      | Some msg \<Rightarrow> Inr (st\<lparr>joinSub := False\<rparr>))"
| "masternodeLoop_select NJ NQ self (QuitSubErr err) st =
     (case err of
        None \<Rightarrow> Inl NilDereference
      | Some msg \<Rightarrow> Inr (st\<lparr>quitSub := False\<rparr>))"

text \<open>
  The \<^verbatim>\<open>for\<close> loop on the events it receives, in the order it receives them. It has no
  \<^verbatim>\<open>return\<close> and no \<^verbatim>\<open>break\<close>: when the events are used up it is waiting in
  \<^verbatim>\<open>select\<close> with the state returned here.
\<close>

fun masternodeLoop_for :: "NodeJoin \<Rightarrow> NodeQuit \<Rightarrow> 8 word list \<Rightarrow> Event list \<Rightarrow> LoopState \<Rightarrow> panic + LoopState" where
  "masternodeLoop_for NJ NQ self [] st = Inr st"
| "masternodeLoop_for NJ NQ self (ev # evs) st =
     (case masternodeLoop_select NJ NQ self ev st of
        Inl p \<Rightarrow> Inl p
      | Inr st' \<Rightarrow> masternodeLoop_for NJ NQ self evs st')"

text \<open>
  The whole function. \<open>err1\<close> and \<open>err2\<close> say whether \<^verbatim>\<open>WatchJoin\<close> and
  \<^verbatim>\<open>WatchQuit\<close> return an error; the function returns on either. Otherwise it enters
  the loop, and after the events it is still selecting.
\<close>

datatype LoopOutcome = Returned LoopState | Selecting LoopState

definition masternodeLoop ::
  "NodeJoin \<Rightarrow> NodeQuit \<Rightarrow> 8 word list \<Rightarrow> bool \<Rightarrow> bool \<Rightarrow> Event list \<Rightarrow> LoopState \<Rightarrow> panic + LoopOutcome" where
  "masternodeLoop NJ NQ self err1 err2 events st =
     (case updateActiveMasternode (manager st) of
        Inl p \<Rightarrow> Inl p
      | Inr mn \<Rightarrow>
          if err1 then Inr (Returned (st\<lparr>manager := mn\<rparr>))
          else if err2 then Inr (Returned (st\<lparr>manager := mn, joinSub := True\<rparr>))
          else
            (case masternodeLoop_for NJ NQ self events (st\<lparr>manager := mn, joinSub := True, quitSub := True\<rparr>) of
               Inl p \<Rightarrow> Inl p
             | Inr st' \<Rightarrow> Inr (Selecting st')))"

section \<open>Sample registries\<close>

text \<open>
  A stub \<^verbatim>\<open>CalculateScore\<close> for the concrete runs below: the score of a record is a new
  object holding its \<^verbatim>\<open>Height\<close>, whatever the block hash.
\<close>

definition stub_CalculateScore :: CalculateScore where
  "stub_CalculateScore m blockHash h = big_NewInt (Height m) h"

definition mk_Masternode :: "string \<Rightarrow> int \<Rightarrow> int \<Rightarrow> Masternode" where
  "mk_Masternode ident height version =
     \<lparr>Masternode.ID = ident, Node = \<lparr>discover_Node.IP = [10, 0, 0, 1], TCP = 21212\<rparr>,
      Height = height, ProtocolVersion = version\<rparr>"

definition mk_Manager :: "Masternode list \<Rightarrow> string \<Rightarrow> MasternodeManager" where
  "mk_Manager nodes self =
     \<lparr>masternodes = Some nodes,
      active = \<lparr>ActiveMasternode.ID = self, Addr = \<lparr>TCPAddr.IP = [10, 0, 0, 1], Port = 21212\<rparr>,
                State = ACTIVE_MASTERNODE_NOT_CAPABLE\<rparr>,
      CurrentBlock = Some [1, 2, 3]\<rparr>"

section \<open>Active-node re-evaluation\<close>

text \<open>
  C9. On every registry and local configuration the re-evaluation returns, and the state
  it sets is NotCapable when the registry has no record of the local identity, NotCapable
  when the record's port or IP differs from the locally bound endpoint, and Started
  otherwise; nothing but the state changes, the state is one of the two, and running the
  evaluation again on the result changes nothing.
\<close>

theorem updateActiveMasternode_transitions:
  "let self = active mn;
       expected =
         (case find (\<lambda>m. Masternode.ID m = ActiveMasternode.ID self) nodes of
            None \<Rightarrow> ACTIVE_MASTERNODE_NOT_CAPABLE
          | Some n \<Rightarrow>
              if uint (TCP (Node n)) = Port (Addr self)
                 \<and> IP_Equal (discover_Node.IP (Node n)) (TCPAddr.IP (Addr self))
              then ACTIVE_MASTERNODE_STARTED else ACTIVE_MASTERNODE_NOT_CAPABLE);
       mn1 = mn\<lparr>masternodes := Some nodes, active := self\<lparr>State := expected\<rparr>\<rparr>
   in updateActiveMasternode (mn\<lparr>masternodes := Some nodes\<rparr>) = Inr mn1
      \<and> updateActiveMasternode mn1 = Inr mn1
      \<and> State (active mn1) \<in> {ACTIVE_MASTERNODE_NOT_CAPABLE, ACTIVE_MASTERNODE_STARTED}"
  by (auto simp: updateActiveMasternode_def MasternodeSet_Node_def Let_def
           split: option.splits)

section \<open>Score collection\<close>

lemma update_fresh_key: "k \<notin> fst ` set al \<Longrightarrow> AList.update k v al = al @ [(k, v)]"
  by (induction al) auto

text \<open>
  The loop invariant: the keys of the map are distinct addresses in use, and the records
  are the ones visited so far, in order. A newly allocated score is not among the keys,
  so the update adds an entry and overwrites none.
\<close>

lemma GetMasternodeScores_range_entries:
  assumes "allocates CS"
  shows "\<forall>k \<in> fst ` set sc. k < length h \<Longrightarrow> distinct (map fst sc) \<Longrightarrow>
     (case GetMasternodeScores_range CS ms b sc h of
        (sc', h') \<Rightarrow> map snd sc' = map snd sc @ ms \<and> distinct (map fst sc')
                      \<and> (\<forall>k \<in> fst ` set sc'. k < length h'))"
proof (induction ms arbitrary: sc h)
  case Nil
  then show ?case by simp
next
  case (Cons m ms)
  obtain p h1 where cs: "CS m b h = (p, h1)" by (cases "CS m b h")
  from assms have "length h \<le> fst (CS m b h)" "fst (CS m b h) < length (snd (CS m b h))"
    by (simp_all add: allocates_def)
  with cs have p: "length h \<le> p" "p < length h1" by simp_all
  from Cons.prems(1) p(1) have fresh: "p \<notin> fst ` set sc" by auto
  then have upd: "AList.update p m sc = sc @ [(p, m)]" by (rule update_fresh_key)
  have a: "\<forall>k \<in> fst ` set (sc @ [(p, m)]). k < length h1"
    using Cons.prems(1) p by auto
  have d: "distinct (map fst (sc @ [(p, m)]))"
    using Cons.prems(2) fresh by auto
  from Cons.IH [OF a d] show ?case
    by (simp add: cs upd)
qed

text \<open>
  How many entries the map has rests on which object each call of \<^verbatim>\<open>CalculateScore\<close>
  returns, and that function is not in this file. Two records whose scores are both 7
  fill two entries when every call returns a new object, and one entry, the second
  record having overwritten the first, when every call returns the same object.
\<close>

lemma GetMasternodeScores_new_objects:
  "GetMasternodeScores (\<lambda>m b. big_NewInt 7)
     (mk_Manager [mk_Masternode ''a'' 5 1, mk_Masternode ''b'' 9 1] ''a'') [1, 2, 3] 1 []
   = Inr ([(0, mk_Masternode ''a'' 5 1), (1, mk_Masternode ''b'' 9 1)], [7, 7])"
  by (simp add: mk_Manager_def mk_Masternode_def big_NewInt_def
        GetMasternodeScores_def MasternodeSet_Nodes_def)

lemma GetMasternodeScores_shared_object:
  "GetMasternodeScores (\<lambda>m b h. (0, [7]))
     (mk_Manager [mk_Masternode ''a'' 5 1, mk_Masternode ''b'' 9 1] ''a'') [1, 2, 3] 1 []
   = Inr ([(0, mk_Masternode ''b'' 9 1)], [7])"
  by (simp add: mk_Manager_def mk_Masternode_def
        GetMasternodeScores_def MasternodeSet_Nodes_def)

section \<open>Ranking\<close>

text \<open>The flag \<^verbatim>\<open>GetMasternodeRank\<close> returns is true whenever it returns at all.\<close>

lemma GetMasternodeRank_flag:
  "GetMasternodeRank CS iter mm ident h = Inr (r, ok) \<Longrightarrow> ok"
  by (auto simp: GetMasternodeRank_def split: option.splits sum.splits)

lemma GetMasternodeRank_range_absent:
  "ident \<notin> Masternode.ID ` snd ` set es \<Longrightarrow> GetMasternodeRank_range es ident t r = r"
  by (induction es ident t r rule: GetMasternodeRank_range.induct) auto

text \<open>
  An identity that no record of the registry carries gets rank 0 and the flag true,
  whatever the score function and the iteration order.
\<close>

lemma GetMasternodeRank_absent:
  assumes it: "map_iteration iter" and al: "allocates CS"
    and absent: "ident \<notin> Masternode.ID ` set nodes"
  shows "GetMasternodeRank CS iter (mm\<lparr>masternodes := Some nodes, CurrentBlock := Some b\<rparr>) ident h
         = Inr (0, True)"
proof -
  obtain sc h' where r: "GetMasternodeScores_range CS nodes b [] h = (sc, h')"
    by (cases "GetMasternodeScores_range CS nodes b [] h")
  from GetMasternodeScores_range_entries [OF al, of "[]" h nodes b] r
  have "map snd sc = nodes" by simp
  then have "snd ` set sc = set nodes" by (metis set_map)
  moreover from it have "set (iter sc) = set sc"
    by (metis map_iteration_def set_mset_mset)
  ultimately have "ident \<notin> Masternode.ID ` snd ` set (iter sc)"
    using absent by simp
  then have "GetMasternodeRank_range (iter sc) ident 0 0 = 0"
    by (rule GetMasternodeRank_range_absent)
  then show ?thesis
    by (simp add: GetMasternodeRank_def GetMasternodeScores_def MasternodeSet_Nodes_def r)
qed

lemma map_iteration_id: "map_iteration (\<lambda>m. m)"
  by (simp add: map_iteration_def)

lemma map_iteration_rev: "map_iteration rev"
  by (simp add: map_iteration_def)

text \<open>
  C1. The ranking does not filter and does not sort. On the registry of \<open>a\<close>
  (protocol version 0, score 5) and \<open>b\<close> (protocol version 1, score 9), with the minimum
  protocol version 1, \<^verbatim>\<open>GetMasternodeScores\<close> returns both records, \<open>a\<close> included, in a
  map that has no order; and when the map is visited in insertion order
  \<^verbatim>\<open>GetMasternodeRank\<close> gives rank 1 to \<open>a\<close>, whose score is the lower one.
\<close>

theorem GetMasternodeScores_ignores_minProtocol:
  "GetMasternodeScores stub_CalculateScore
     (mk_Manager [mk_Masternode ''a'' 5 0, mk_Masternode ''b'' 9 1] ''a'') [1, 2, 3] 1 []
   = Inr ([(0, mk_Masternode ''a'' 5 0), (1, mk_Masternode ''b'' 9 1)], [5, 9])
   \<and> GetMasternodeRank stub_CalculateScore (\<lambda>m. m)
       (mk_Manager [mk_Masternode ''a'' 5 0, mk_Masternode ''b'' 9 1] ''a'') ''a'' [] = Inr (1, True)"
  by (simp add: mk_Manager_def mk_Masternode_def stub_CalculateScore_def big_NewInt_def
        GetMasternodeScores_def MasternodeSet_Nodes_def GetMasternodeRank_def)

text \<open>
  C4. The rank depends on the order in which the Go runtime visits the score map. On the
  same registry of \<open>a\<close> and \<open>b\<close>, the same block and the same identity \<open>a\<close>, a run
  that visits the map in insertion order reports rank 1 and a run that visits it in the
  opposite order reports rank 2; both orders are map iterations.
\<close>

theorem GetMasternodeRank_depends_on_iteration:
  "map_iteration (\<lambda>m. m) \<and> map_iteration rev
   \<and> GetMasternodeRank stub_CalculateScore (\<lambda>m. m)
       (mk_Manager [mk_Masternode ''a'' 5 1, mk_Masternode ''b'' 9 1] ''a'') ''a'' [] = Inr (1, True)
   \<and> GetMasternodeRank stub_CalculateScore rev
       (mk_Manager [mk_Masternode ''a'' 5 1, mk_Masternode ''b'' 9 1] ''a'') ''a'' [] = Inr (2, True)"
  by (simp add: mk_Manager_def mk_Masternode_def stub_CalculateScore_def big_NewInt_def
        GetMasternodeScores_def MasternodeSet_Nodes_def GetMasternodeRank_def
        map_iteration_id map_iteration_rev)

text \<open>
  C6. For an identity that is not in the registry \<^verbatim>\<open>GetMasternodeRank\<close> returns rank 0
  with the flag true: on the registry that holds only \<open>b\<close>, the query for \<open>a\<close> yields
  \<open>(0, True)\<close>.
\<close>

theorem GetMasternodeRank_absent_ok:
  "GetMasternodeRank stub_CalculateScore (\<lambda>m. m) (mk_Manager [mk_Masternode ''b'' 9 1] ''a'') ''a'' []
   = Inr (0, True)"
  by (simp add: mk_Manager_def mk_Masternode_def stub_CalculateScore_def big_NewInt_def
        GetMasternodeScores_def MasternodeSet_Nodes_def GetMasternodeRank_def)

section \<open>Lock-vote gate\<close>

text \<open>
  The gate in terms of what \<^verbatim>\<open>GetMasternodeRank\<close> returns: the votes go through
  when the flag is true and the rank is at most 10, so rank 10 passes and rank 11 does
  not.
\<close>

lemma ProcessTxLockVotes_gate:
  "GetMasternodeRank CS iter mm (ActiveMasternode.ID (active mm)) h = Inr (rank, ok) \<Longrightarrow>
     ProcessTxLockVotes CS iter f mm votes h = Inr (ok \<and> rank \<le> 10 \<and> f votes)"
  by (auto simp: ProcessTxLockVotes_def SIGNATURES_TOTAL_def)

text \<open>
  C5. A local identity that is not in the ranking passes the gate: on the registry that
  holds only \<open>b\<close>, with local identity \<open>a\<close>, \<^verbatim>\<open>ProcessTxLockVotes\<close> hands the votes
  to \<^verbatim>\<open>InstantSend\<close> and returns what it returns, here true.
\<close>

theorem ProcessTxLockVotes_absent_passes:
  "ProcessTxLockVotes stub_CalculateScore (\<lambda>m. m) (\<lambda>votes. True)
     (mk_Manager [mk_Masternode ''b'' 9 1] ''a'') votes [] = Inr True"
  by (simp add: mk_Manager_def mk_Masternode_def stub_CalculateScore_def big_NewInt_def
        GetMasternodeScores_def MasternodeSet_Nodes_def GetMasternodeRank_def
        ProcessTxLockVotes_def SIGNATURES_TOTAL_def)

section \<open>Payment winner\<close>

text \<open>
  C2. On a registry of three records \<^verbatim>\<open>GetNextMasternodeInQueueForPayment\<close> returns no
  winner: it panics at the first \<^verbatim>\<open>sortMap[i] = node\<close>, an assignment to an entry of a
  nil map.
\<close>

theorem GetNextMasternodeInQueueForPayment_three:
  "GetNextMasternodeInQueueForPayment stub_CalculateScore
     (mk_Manager [mk_Masternode ''a'' 5 1, mk_Masternode ''b'' 9 1, mk_Masternode ''c'' 7 1] ''a'')
     [1, 2, 3] [] = Inl NilMapAssignment"
  by (simp add: mk_Manager_def mk_Masternode_def GetNextMasternodeInQueueForPayment_def
        MasternodeSet_Len_def MasternodeSet_Nodes_def)

text \<open>
  C3. On every non-empty registry the selection ends in a run-time panic, the write to
  the nil \<^verbatim>\<open>sortMap\<close>. And the comparison loop, even when it is given a map that holds
  the record, panics at its first \<^verbatim>\<open>score.Cmp(highest)\<close>, because \<^verbatim>\<open>highest\<close> is
  nil when the loop starts.
\<close>

theorem GetNextMasternodeInQueueForPayment_panics:
  "GetNextMasternodeInQueueForPayment CS (mm\<lparr>masternodes := Some (node # rest)\<rparr>) block h = Inl NilMapAssignment
   \<and> GetNextMasternodeInQueueForPayment_paids CS (i # paids) block (Some (sm(i \<mapsto> node)))
        tenthNetWork 0 None None h = Inl NilDereference"
  by (simp add: GetNextMasternodeInQueueForPayment_def MasternodeSet_Len_def MasternodeSet_Nodes_def
        SortMap_index_def Cmp_def split: prod.splits)

text \<open>
  C7. On the empty registry the selection returns the pair of a nil winner and a nil
  error: no winner, and no error either.
\<close>

theorem GetNextMasternodeInQueueForPayment_empty:
  "GetNextMasternodeInQueueForPayment CS (mm\<lparr>masternodes := Some []\<rparr>) block h = Inr (None, None)"
  by (simp add: GetNextMasternodeInQueueForPayment_def MasternodeSet_Len_def MasternodeSet_Nodes_def)

section \<open>Membership event loop\<close>

text \<open>
  C8. After an error on the join stream, or on the quit stream, the loop unsubscribes
  that stream and goes on with the events that follow, exactly as it would have without
  the error; and once both subscriptions are made, no sequence of events makes
  \<^verbatim>\<open>masternodeLoop\<close> return.
\<close>

theorem masternodeLoop_continues_after_error:
  "masternodeLoop_for NJ NQ self (JoinSubErr (Some msg) # events) st
     = masternodeLoop_for NJ NQ self events (st\<lparr>joinSub := False\<rparr>)
   \<and> masternodeLoop_for NJ NQ self (QuitSubErr (Some msg) # events) st
     = masternodeLoop_for NJ NQ self events (st\<lparr>quitSub := False\<rparr>)
   \<and> masternodeLoop NJ NQ self False False events st \<noteq> Inr (Returned st')"
  by (simp add: masternodeLoop_def split: sum.splits)

end
